theory Spec2Isabelle
  imports Main "HOL-Library.Word"
begin

section \<open>The host runtime as neon.cc sees it\<close>

text \<open>
  neon.cc is a shim of C functions over the V8 embedding API. The second section
  transcribes its functions, statement by statement and under their names. The V8 and NAN
  operations they call are modelled in this section, after the definitions of v8.h and
  nan.h: handles, handle scopes, persistent handles, string construction, exceptions and
  templates. A result of type \<open>fault + 'a\<close> is \<open>Inl\<close> where the process would be
  aborted by a V8 API check or would read memory it must not read. Pointer arguments that
  receive a result (\<open>out\<close>) are returned, except where they point to a persistent
  handle, which lives in the state.
\<close>

type_synonym addr = nat

text \<open>
  The word stored in a handle slot: a small integer, one of the two oddballs the handle
  machinery itself writes, or the address of an object of the JavaScript heap. Two slots
  hold the same host value exactly when they hold the same word.
\<close>

datatype tagged = Smi int | TheHole | Undefined | HeapObject addr

text \<open>Native function pointers: the one function of neon.cc that is registered as a
  host callback, and the functions of the embedding Rust code.\<close>

datatype fnptr = ConstructBaseCallback_ptr | RustFn nat

record function_template =
  ft_callback :: fnptr
  ft_data :: tagged
  ft_prototype_template :: "addr option"
  ft_instance_template :: "addr option"
  ft_class_name :: "tagged option"

record object_template =
  ot_properties :: "(tagged \<times> tagged) list"
  ot_internal_field_count :: nat

text \<open>
  Objects of the JavaScript heap. A string is represented by its UTF-8 bytes. A proxy is
  represented by what its \<open>ownKeys\<close> trap does: throw a value or return a list of keys.
\<close>

datatype hobject =
    JSString string
  | JSObject "(tagged \<times> tagged) list"
  | JSArray "tagged list"
  | JSProxy "tagged + tagged list"
  | JSError tagged
  | External addr
  | FunctionTemplate function_template
  | ObjectTemplate object_template

text \<open>\<open>v8::FunctionCallbackInfo\<close>: what the host hands to a native callback.\<close>

record FunctionCallbackInfo =
  info_data :: tagged
  info_is_construct_call :: bool
  info_this :: tagged
  info_args :: "tagged list"

text \<open>\<open>callback_t\<close> of neon.h: a static function pointer and an opaque closure pointer.\<close>

record callback_t =
  static_callback :: fnptr
  dynamic_callback :: addr

text \<open>
  Modelled from the spec: \<open>neon::BaseClassMetadata\<close> is declared in
  neon_class_metadata.h, which is not among the sources. The spec describes it as the
  record of a class's name, its allocate, construct, call and drop functions, and its
  host-side constructor template; the fields follow the order of the constructor call in
  \<open>Neon_Class_CreateBase\<close>.
\<close>

record BaseClassMetadata =
  md_construct_callback :: fnptr
  md_construct_kernel :: addr
  md_call_callback :: fnptr
  md_call_kernel :: addr
  md_allocate_callback :: fnptr
  md_allocate_kernel :: addr
  md_drop_kernel :: fnptr
  md_template :: "tagged option"
  md_name :: string

text \<open>What the model records of the calls that leave neon.cc.\<close>

datatype event =
    MetadataConstruct addr FunctionCallbackInfo
  | MetadataCall addr FunctionCallbackInfo
  | RustCallback nat FunctionCallbackInfo

datatype fault =
    NoHandleScope
  | StaleHandle
  | EmptyHandle
  | DoubleDispose
  | BadPointer
  | BadCast
  | EscapeTwice
  | BufferOverread
  | FatalError

text \<open>
  The state of one isolate and of the native memory neon.cc touches.
  \<^item> \<open>heap\<close>: the JavaScript heap; an object's address is its index, allocation appends.
  \<^item> \<open>slots\<close>: the isolate's stack of local handle slots; a \<open>v8::Local\<close> is the index
    of a slot, or empty. \<open>level\<close> counts the open handle scopes.
  \<^item> \<open>globals\<close>: the global handle nodes; \<open>None\<close> is a disposed node.
  \<^item> \<open>persistents\<close>: the native memory cells that hold a \<open>v8::Persistent\<close>, each with
    its \<open>val_\<close> field: the index of a global handle node, or null.
  \<^item> \<open>classes\<close>: the native heap of class metadata objects.
  \<^item> \<open>pending_exception\<close>: the exception scheduled on the isolate, if any.
  \<^item> \<open>trace\<close>: the calls made out of neon.cc so far, oldest first.
\<close>

record state =
  heap :: "hobject list"
  slots :: "tagged list"
  level :: nat
  globals :: "tagged option list"
  persistents :: "addr \<rightharpoonup> addr option"
  classes :: "BaseClassMetadata list"
  pending_exception :: "tagged option"
  trace :: "event list"

type_synonym Local = "addr option"

definition and_then :: "fault + 'a \<Rightarrow> ('a \<Rightarrow> fault + 'b) \<Rightarrow> fault + 'b" where
  "and_then r f = (case r of Inl e \<Rightarrow> Inl e | Inr x \<Rightarrow> f x)"

subsection \<open>Local handles and handle scopes\<close>

text \<open>\<open>v8::HandleScope::CreateHandle\<close>: a new slot in the innermost open scope; V8 refuses
  with "Cannot create a handle without a HandleScope" when none is open.\<close>

definition CreateHandle :: "state \<Rightarrow> tagged \<Rightarrow> fault + (addr \<times> state)" where
  "CreateHandle s v =
     (if level s = 0 then Inl NoHandleScope
      else Inr (length (slots s), s\<lparr>slots := slots s @ [v]\<rparr>))"

text \<open>Reading through a local handle (\<open>*handle\<close>): the slot must still exist.\<close>

definition deref :: "state \<Rightarrow> addr \<Rightarrow> fault + tagged" where
  "deref s i = (if i < length (slots s) then Inr (slots s ! i) else Inl StaleHandle)"

text \<open>The host value a \<open>v8::Local\<close> refers to: nothing for an empty handle and for a
  handle whose slot is gone.\<close>

definition referent :: "state \<Rightarrow> Local \<Rightarrow> tagged option" where
  "referent s h =
     (case h of None \<Rightarrow> None
      | Some i \<Rightarrow> if i < length (slots s) then Some (slots s ! i) else None)"

definition valid :: "state \<Rightarrow> Local \<Rightarrow> bool" where
  "valid s h = (case h of None \<Rightarrow> False | Some i \<Rightarrow> i < length (slots s))"

text \<open>\<open>v8::HandleScope\<close> keeps the top of the slot stack at the time it was opened;
  closing it cuts the stack back to there.\<close>

record HandleScope =
  prev_next :: nat

record EscapableHandleScope = HandleScope +
  escape_slot :: addr

definition HandleScope_ctor :: "state \<Rightarrow> HandleScope \<times> state" where
  "HandleScope_ctor s = (\<lparr>prev_next = length (slots s)\<rparr>, s\<lparr>level := level s + 1\<rparr>)"

definition HandleScope_dtor :: "state \<Rightarrow> nat \<Rightarrow> state" where
  "HandleScope_dtor s prev = s\<lparr>slots := take prev (slots s), level := level s - 1\<rparr>"

text \<open>\<open>v8::EscapableHandleScope\<close>: the constructor first creates the escape slot, holding
  the hole, in the scope that is current (the parent), then opens the new scope.\<close>

definition EscapableHandleScope_ctor :: "state \<Rightarrow> fault + (EscapableHandleScope \<times> state)" where
  "EscapableHandleScope_ctor s =
     and_then (CreateHandle s TheHole) (\<lambda>(slot, s1).
       Inr (\<lparr>prev_next = length (slots s1), escape_slot = slot\<rparr>, s1\<lparr>level := level s1 + 1\<rparr>))"

text \<open>\<open>EscapableHandleScope::Escape\<close>: V8 refuses with "Escape value set twice" unless
  the escape slot still holds the hole; an empty handle escapes as an empty handle.\<close>

definition Escape :: "state \<Rightarrow> EscapableHandleScope \<Rightarrow> Local \<Rightarrow> fault + (Local \<times> state)" where
  "Escape s scope v =
     and_then (deref s (escape_slot scope)) (\<lambda>cur.
       if cur \<noteq> TheHole then Inl EscapeTwice
       else case v of
           None \<Rightarrow> Inr (None, s\<lparr>slots := (slots s)[escape_slot scope := Undefined]\<rparr>)
         | Some i \<Rightarrow>
             and_then (deref s i) (\<lambda>w.
               Inr (Some (escape_slot scope), s\<lparr>slots := (slots s)[escape_slot scope := w]\<rparr>)))"

text \<open>\<open>Local::operator==\<close>: two empty handles are equal, an empty and a non-empty one
  are not, and two non-empty handles are equal when their slots hold the same word.\<close>

definition Local_eq :: "state \<Rightarrow> Local \<Rightarrow> Local \<Rightarrow> fault + bool" where
  "Local_eq s a b =
     (case a of
        None \<Rightarrow> Inr (b = None)
      | Some i \<Rightarrow>
          (case b of
             None \<Rightarrow> Inr False
           | Some j \<Rightarrow> and_then (deref s i) (\<lambda>x. and_then (deref s j) (\<lambda>y. Inr (x = y)))))"

subsection \<open>Persistent handles\<close>


text \<open>\<open>V8::DisposeGlobal\<close>: frees a global handle node; freeing a node that is not live
  is a double free.\<close>

definition DisposeGlobal :: "state \<Rightarrow> addr \<Rightarrow> fault + state" where
  "DisposeGlobal s g =
     (if g < length (globals s) \<and> globals s ! g \<noteq> None
      then Inr (s\<lparr>globals := (globals s)[g := None]\<rparr>)
      else Inl DoubleDispose)"

text \<open>\<open>PersistentBase::Reset()\<close>: nothing when the handle is empty; otherwise the node
  is disposed and \<open>val_\<close> is set to null.\<close>

definition Persistent_Reset :: "state \<Rightarrow> addr \<Rightarrow> fault + state" where
  "Persistent_Reset s p =
     (case persistents s p of
        None \<Rightarrow> Inl BadPointer
      | Some None \<Rightarrow> Inr s
      | Some (Some g) \<Rightarrow>
          and_then (DisposeGlobal s g) (\<lambda>s1.
            Inr (s1\<lparr>persistents := (persistents s1)(p \<mapsto> None)\<rparr>)))"

text \<open>\<open>PersistentBase::Reset(isolate, other)\<close>: \<open>Reset()\<close>, then, unless \<open>other\<close> is
  empty, a new global handle node for the value \<open>other\<close> refers to.\<close>

definition Persistent_Reset_to :: "state \<Rightarrow> addr \<Rightarrow> Local \<Rightarrow> fault + state" where
  "Persistent_Reset_to s p other =
     and_then (Persistent_Reset s p) (\<lambda>s1.
       case other of
         None \<Rightarrow> Inr s1
       | Some i \<Rightarrow>
           and_then (deref s1 i) (\<lambda>v.
             Inr (s1\<lparr>globals := globals s1 @ [Some v],
                     persistents := (persistents s1)(p \<mapsto> Some (length (globals s1)))\<rparr>)))"


text \<open>\<open>Nan::New(persistent)\<close>, that is \<open>v8::Local::New(isolate, persistent)\<close>: an empty
  handle for an empty persistent; otherwise a new local handle, in the current scope, for
  the value of the persistent's node.\<close>

definition Nan_New_Persistent :: "state \<Rightarrow> addr \<Rightarrow> fault + (Local \<times> state)" where
  "Nan_New_Persistent s p =
     (case persistents s p of
        None \<Rightarrow> Inl BadPointer
      | Some None \<Rightarrow> Inr (None, s)
      | Some (Some g) \<Rightarrow>
          (if g < length (globals s) then
             (case globals s ! g of
                None \<Rightarrow> Inl StaleHandle
              | Some v \<Rightarrow> and_then (CreateHandle s v) (\<lambda>(i, s1). Inr (Some i, s1)))
           else Inl StaleHandle))"

subsection \<open>Heap objects, strings and exceptions\<close>

text \<open>A new heap object and a local handle for it, in the current scope.\<close>

definition allocate :: "state \<Rightarrow> hobject \<Rightarrow> fault + (Local \<times> state)" where
  "allocate s obj =
     and_then (CreateHandle (s\<lparr>heap := heap s @ [obj]\<rparr>) (HeapObject (length (heap s))))
       (\<lambda>(i, s1). Inr (Some i, s1))"

definition object_at :: "state \<Rightarrow> tagged \<Rightarrow> hobject option" where
  "object_at s v =
     (case v of
        HeapObject a \<Rightarrow> if a < length (heap s) then Some (heap s ! a) else None
      | _ \<Rightarrow> None)"

text \<open>\<open>i::String::kMaxLength\<close>, \<open>(1 << 28) - 16\<close> in the V8 releases of the time.\<close>

definition kMaxLength :: int where
  "kMaxLength = 2 ^ 28 - 16"

text \<open>\<open>strlen\<close> on a buffer: the buffer must hold a NUL.\<close>

definition StringLength :: "string \<Rightarrow> nat option" where
  "StringLength data =
     (if CHR 0x00 \<in> set data then Some (length (takeWhile (\<lambda>c. c \<noteq> CHR 0x00) data))
      else None)"

text \<open>
  \<open>v8::String::NewFromUtf8(isolate, data, kNormal, length)\<close>, a \<open>MaybeLocal\<close>: the empty
  string for length 0; no string, and nothing else, for a length above \<open>kMaxLength\<close>;
  \<open>strlen(data)\<close> bytes for a negative length; V8 aborts (\<open>ToHandleChecked\<close>) when a
  measured length is too long. \<open>data\<close> is the buffer the pointer refers to: reading past
  its end is a fault of the model.
\<close>

definition String_NewFromUtf8 :: "state \<Rightarrow> string \<Rightarrow> int \<Rightarrow> fault + (Local \<times> state)" where
  "String_NewFromUtf8 s data len =
     (if len = 0 then allocate s (JSString [])
      else if kMaxLength < len then Inr (None, s)
      else
        (case (if len < 0 then StringLength data else Some (nat len)) of
           None \<Rightarrow> Inl BufferOverread
         | Some n \<Rightarrow>
             if length data < n then Inl BufferOverread
             else if kMaxLength < int n then Inl FatalError
             else allocate s (JSString (take n data))))"

text \<open>\<open>MaybeLocal::ToLocalChecked\<close> aborts on an empty handle.\<close>

definition ToLocalChecked :: "Local \<Rightarrow> fault + Local" where
  "ToLocalChecked m = (case m of None \<Rightarrow> Inl FatalError | Some i \<Rightarrow> Inr (Some i))"

text \<open>\<open>v8::Exception::Error(message)\<close>: a new error object carrying the message.\<close>

definition Exception_Error :: "state \<Rightarrow> Local \<Rightarrow> fault + (Local \<times> state)" where
  "Exception_Error s msg =
     (case msg of
        None \<Rightarrow> Inl EmptyHandle
      | Some i \<Rightarrow> and_then (deref s i) (\<lambda>m. allocate s (JSError m)))"

text \<open>\<open>Isolate::ThrowException(value)\<close> schedules the value as the pending exception;
  \<open>undefined\<close> when the handle is empty.\<close>

definition ThrowException :: "state \<Rightarrow> Local \<Rightarrow> fault + state" where
  "ThrowException s exc =
     (case exc of
        None \<Rightarrow> Inr (s\<lparr>pending_exception := Some Undefined\<rparr>)
      | Some i \<Rightarrow> and_then (deref s i) (\<lambda>v. Inr (s\<lparr>pending_exception := Some v\<rparr>)))"

text \<open>\<open>Nan::ThrowError(const char *msg)\<close>:
  \<open>HandleScope scope; isolate->ThrowException(v8::Exception::Error(New(msg).ToLocalChecked()));\<close>
  where \<open>Nan::New(msg)\<close> is \<open>NewFromUtf8\<close> with length \<open>-1\<close> on the NUL-terminated
  literal.\<close>

definition Nan_ThrowError_cstr :: "state \<Rightarrow> string \<Rightarrow> fault + state" where
  "Nan_ThrowError_cstr s msg =
     (case HandleScope_ctor s of (scope, s1) \<Rightarrow>
        and_then (String_NewFromUtf8 s1 (msg @ [CHR 0x00]) (- 1)) (\<lambda>(m, s2).
          and_then (ToLocalChecked m) (\<lambda>str.
            and_then (Exception_Error s2 str) (\<lambda>(err, s3).
              and_then (ThrowException s3 err) (\<lambda>s4.
                Inr (HandleScope_dtor s4 (prev_next scope)))))))"

text \<open>\<open>Nan::ThrowError(v8::Local<v8::Value> error)\<close>:
  \<open>isolate->ThrowException(error);\<close>\<close>

definition Nan_ThrowError :: "state \<Rightarrow> Local \<Rightarrow> fault + state" where
  "Nan_ThrowError s error = ThrowException s error"

text \<open>
  \<open>Nan::GetOwnPropertyNames(obj)\<close>, a \<open>MaybeLocal<Array>\<close>: a new array of the keys of an
  ordinary object; for a proxy, what its \<open>ownKeys\<close> trap gives: a thrown value, which
  is left pending with no array, or the keys.
\<close>

definition Nan_GetOwnPropertyNames :: "state \<Rightarrow> Local \<Rightarrow> fault + (Local \<times> state)" where
  "Nan_GetOwnPropertyNames s obj =
     (case obj of
        None \<Rightarrow> Inl EmptyHandle
      | Some i \<Rightarrow>
          and_then (deref s i) (\<lambda>v.
            case object_at s v of
              Some (JSObject props) \<Rightarrow> allocate s (JSArray (map fst props))
            | Some (JSProxy (Inr keys)) \<Rightarrow> allocate s (JSArray keys)
            | Some (JSProxy (Inl exc)) \<Rightarrow> Inr (None, s\<lparr>pending_exception := Some exc\<rparr>)
            | _ \<Rightarrow> Inl BadCast))"

subsection \<open>Templates\<close>

text \<open>\<open>v8::External::New(isolate, value)\<close> and \<open>External::Value()\<close>.\<close>

definition External_New :: "state \<Rightarrow> addr \<Rightarrow> fault + (Local \<times> state)" where
  "External_New s p = allocate s (External p)"

definition External_Value :: "state \<Rightarrow> tagged \<Rightarrow> fault + addr" where
  "External_Value s v =
     (case object_at s v of Some (External p) \<Rightarrow> Inr p | _ \<Rightarrow> Inl BadCast)"

text \<open>\<open>v8::FunctionTemplate::New(isolate, callback, data)\<close>.\<close>

definition FunctionTemplate_New :: "state \<Rightarrow> fnptr \<Rightarrow> Local \<Rightarrow> fault + (Local \<times> state)" where
  "FunctionTemplate_New s callback data =
     (case data of
        None \<Rightarrow> Inl EmptyHandle
      | Some i \<Rightarrow>
          and_then (deref s i) (\<lambda>d.
            allocate s (FunctionTemplate
              \<lparr>ft_callback = callback, ft_data = d, ft_prototype_template = None,
               ft_instance_template = None, ft_class_name = None\<rparr>)))"

text \<open>The function template a handle refers to, with its address.\<close>

definition function_template_at :: "state \<Rightarrow> Local \<Rightarrow> fault + (addr \<times> function_template)" where
  "function_template_at s ft =
     (case ft of
        None \<Rightarrow> Inl EmptyHandle
      | Some i \<Rightarrow>
          and_then (deref s i) (\<lambda>v.
            case v of
              HeapObject a \<Rightarrow>
                (case object_at s v of
                   Some (FunctionTemplate t) \<Rightarrow> Inr (a, t)
                 | _ \<Rightarrow> Inl BadCast)
            | _ \<Rightarrow> Inl BadCast))"

definition object_template_at :: "state \<Rightarrow> Local \<Rightarrow> fault + (addr \<times> object_template)" where
  "object_template_at s ot =
     (case ot of
        None \<Rightarrow> Inl EmptyHandle
      | Some i \<Rightarrow>
          and_then (deref s i) (\<lambda>v.
            case v of
              HeapObject a \<Rightarrow>
                (case object_at s v of
                   Some (ObjectTemplate t) \<Rightarrow> Inr (a, t)
                 | _ \<Rightarrow> Inl BadCast)
            | _ \<Rightarrow> Inl BadCast))"

text \<open>\<open>FunctionTemplate::InstanceTemplate()\<close> and \<open>PrototypeTemplate()\<close>: the object
  template is created, empty, on first use and remembered in the function template.\<close>

definition FunctionTemplate_InstanceTemplate :: "state \<Rightarrow> Local \<Rightarrow> fault + (Local \<times> state)" where
  "FunctionTemplate_InstanceTemplate s ft =
     and_then (function_template_at s ft) (\<lambda>(a, t).
       case ft_instance_template t of
         Some ot \<Rightarrow> and_then (CreateHandle s (HeapObject ot)) (\<lambda>(i, s1). Inr (Some i, s1))
       | None \<Rightarrow>
           allocate
             (s\<lparr>heap := (heap s)[a := FunctionTemplate
                  (t\<lparr>ft_instance_template := Some (length (heap s))\<rparr>)]\<rparr>)
             (ObjectTemplate \<lparr>ot_properties = [], ot_internal_field_count = 0\<rparr>))"


text \<open>\<open>FunctionTemplate::SetClassName(name)\<close>.\<close>

definition FunctionTemplate_SetClassName :: "state \<Rightarrow> Local \<Rightarrow> Local \<Rightarrow> fault + state" where
  "FunctionTemplate_SetClassName s ft name =
     and_then (function_template_at s ft) (\<lambda>(a, t).
       case name of
         None \<Rightarrow> Inl EmptyHandle
       | Some i \<Rightarrow>
           and_then (deref s i) (\<lambda>n.
             Inr (s\<lparr>heap := (heap s)[a := FunctionTemplate (t\<lparr>ft_class_name := Some n\<rparr>)]\<rparr>)))"

text \<open>\<open>ObjectTemplate::SetInternalFieldCount(n)\<close>.\<close>

definition ObjectTemplate_SetInternalFieldCount :: "state \<Rightarrow> Local \<Rightarrow> nat \<Rightarrow> fault + state" where
  "ObjectTemplate_SetInternalFieldCount s ot n =
     and_then (object_template_at s ot) (\<lambda>(a, t).
       Inr (s\<lparr>heap := (heap s)[a := ObjectTemplate (t\<lparr>ot_internal_field_count := n\<rparr>)]\<rparr>))"


text \<open>The function template, or the object template, at an address of the heap.\<close>

definition function_template_of :: "state \<Rightarrow> addr \<Rightarrow> function_template option" where
  "function_template_of s a =
     (case object_at s (HeapObject a) of Some (FunctionTemplate t) \<Rightarrow> Some t | _ \<Rightarrow> None)"

definition object_template_of :: "state \<Rightarrow> addr \<Rightarrow> object_template option" where
  "object_template_of s a =
     (case object_at s (HeapObject a) of Some (ObjectTemplate t) \<Rightarrow> Some t | _ \<Rightarrow> None)"


subsection \<open>Class metadata\<close>

text \<open>
  Modelled from the spec: the member functions of \<open>neon::ClassMetadata\<close> and
  \<open>neon::BaseClassMetadata\<close> that neon.cc calls are declared in neon_class_metadata.h,
  which is not among the sources. \<open>SetTemplate\<close> and \<open>GetTemplate\<close> store the
  constructor template in the metadata and hand it out as a local handle (the spec:
  metadata owns its host-side constructor template, stored so that it stays valid across
  calls); \<open>SetName\<close> stores the name; \<open>construct\<close> and \<open>call\<close> are the two behaviours
  of the class (the spec: construct is called on \<open>new\<close>, call is called without
  \<open>new\<close>), recorded in the trace with the metadata object and the call they ran on.
\<close>

definition ClassMetadata_SetTemplate :: "state \<Rightarrow> addr \<Rightarrow> Local \<Rightarrow> fault + state" where
  "ClassMetadata_SetTemplate s m t =
     (if m < length (classes s) then
        (case t of
           None \<Rightarrow> Inr (s\<lparr>classes := (classes s)[m := (classes s ! m)\<lparr>md_template := None\<rparr>]\<rparr>)
         | Some i \<Rightarrow>
             and_then (deref s i) (\<lambda>v.
               Inr (s\<lparr>classes := (classes s)[m := (classes s ! m)\<lparr>md_template := Some v\<rparr>]\<rparr>)))
      else Inl BadPointer)"

definition ClassMetadata_GetTemplate :: "state \<Rightarrow> addr \<Rightarrow> fault + (Local \<times> state)" where
  "ClassMetadata_GetTemplate s m =
     (if m < length (classes s) then
        (case md_template (classes s ! m) of
           None \<Rightarrow> Inr (None, s)
         | Some v \<Rightarrow> and_then (CreateHandle s v) (\<lambda>(i, s1). Inr (Some i, s1)))
      else Inl BadPointer)"

definition ClassMetadata_SetName :: "state \<Rightarrow> addr \<Rightarrow> string \<Rightarrow> fault + state" where
  "ClassMetadata_SetName s m name =
     (if m < length (classes s)
      then Inr (s\<lparr>classes := (classes s)[m := (classes s ! m)\<lparr>md_name := name\<rparr>]\<rparr>)
      else Inl BadPointer)"

definition BaseClassMetadata_construct :: "state \<Rightarrow> addr \<Rightarrow> FunctionCallbackInfo \<Rightarrow> fault + state" where
  "BaseClassMetadata_construct s m info =
     (if m < length (classes s) then Inr (s\<lparr>trace := trace s @ [MetadataConstruct m info]\<rparr>)
      else Inl BadPointer)"

definition BaseClassMetadata_call :: "state \<Rightarrow> addr \<Rightarrow> FunctionCallbackInfo \<Rightarrow> fault + state" where
  "BaseClassMetadata_call s m info =
     (if m < length (classes s) then Inr (s\<lparr>trace := trace s @ [MetadataCall m info]\<rparr>)
      else Inl BadPointer)"

section \<open>neon.cc\<close>

subsection \<open>Scopes\<close>

definition Neon_Scope_Enter :: "state \<Rightarrow> HandleScope \<times> state" where
  "Neon_Scope_Enter s = HandleScope_ctor s"

definition Neon_Scope_Exit :: "state \<Rightarrow> HandleScope \<Rightarrow> state" where
  "Neon_Scope_Exit s scope = HandleScope_dtor s (prev_next scope)"

definition Neon_Scope_Enter_Escapable :: "state \<Rightarrow> fault + (EscapableHandleScope \<times> state)" where
  "Neon_Scope_Enter_Escapable s = EscapableHandleScope_ctor s"

definition Neon_Scope_Exit_Escapable :: "state \<Rightarrow> EscapableHandleScope \<Rightarrow> state" where
  "Neon_Scope_Exit_Escapable s scope = HandleScope_dtor s (prev_next scope)"

text \<open>\<open>*out = scope->Escape(value);\<close> The out-parameter is returned.\<close>

definition Neon_Scope_Escape :: "state \<Rightarrow> EscapableHandleScope \<Rightarrow> Local \<Rightarrow> fault + (Local \<times> state)" where
  "Neon_Scope_Escape s scope v = Escape s scope v"

subsection \<open>Memory\<close>

text \<open>\<open>return v1 == v2;\<close>\<close>

definition Neon_Mem_SameHandle :: "state \<Rightarrow> Local \<Rightarrow> Local \<Rightarrow> fault + bool" where
  "Neon_Mem_SameHandle s v1 v2 = Local_eq s v1 v2"

text \<open>\<open>::new (out) v8::Persistent<v8::Value>();\<close>\<close>

definition Neon_Mem_NewPersistent :: "state \<Rightarrow> addr \<Rightarrow> state" where
  "Neon_Mem_NewPersistent s out = s\<lparr>persistents := (persistents s)(out \<mapsto> None)\<rparr>"


text \<open>\<open>*out = Nan::New(*p);\<close>\<close>

definition Neon_Mem_ReadPersistent :: "state \<Rightarrow> addr \<Rightarrow> fault + (Local \<times> state)" where
  "Neon_Mem_ReadPersistent s p = Nan_New_Persistent s p"

text \<open>\<open>p->Reset(isolate, h);\<close>\<close>

definition Neon_Mem_ResetPersistent :: "state \<Rightarrow> addr \<Rightarrow> Local \<Rightarrow> fault + state" where
  "Neon_Mem_ResetPersistent s p h = Persistent_Reset_to s p h"

subsection \<open>Thin function calls\<close>

text \<open>
  Both bodies are a commented-out call followed by \<open>// FIXME: implement me\<close> and
  \<open>return false;\<close>. \<open>out\<close>, \<open>fun\<close>, \<open>self\<close> and the elements of \<open>argv\<close> are pointers
  to persistent handles.
\<close>

definition Neon_Fun_CallThin ::
  "state \<Rightarrow> addr \<Rightarrow> addr \<Rightarrow> addr \<Rightarrow> 32 word \<Rightarrow> addr list \<Rightarrow> bool \<times> state" where
  "Neon_Fun_CallThin s out fn self argc argv = (False, s)"

definition Neon_Fun_ConstructThin ::
  "state \<Rightarrow> addr \<Rightarrow> addr \<Rightarrow> 32 word \<Rightarrow> addr list \<Rightarrow> bool \<times> state" where
  "Neon_Fun_ConstructThin s out fn argc argv = (False, s)"

subsection \<open>Objects and strings\<close>

text \<open>
  \<open>Neon_Object_GetOwnPropertyNames\<close>. The body ends after \<open>out->Reset(isolate, larr);\<close>
  with no \<open>return\<close>: the result is \<open>None\<close> where control leaves the function without
  a return value.
  \<^verbatim>\<open>
  Nan::HandleScope scope;
  v8::Local<v8::Object> lobj = Nan::New(*obj);
  v8::Local<v8::Array> larr;
  Nan::MaybeLocal<v8::Array> maybe = Nan::GetOwnPropertyNames(lobj);
  if (!maybe.ToLocal(&larr)) {
    return false;
  }
  out->Reset(isolate, larr);
  \<close>
\<close>

definition Neon_Object_GetOwnPropertyNames ::
  "state \<Rightarrow> addr \<Rightarrow> addr \<Rightarrow> fault + (bool option \<times> state)" where
  "Neon_Object_GetOwnPropertyNames s out obj =
     (case HandleScope_ctor s of (scope, s1) \<Rightarrow>
        and_then (Nan_New_Persistent s1 obj) (\<lambda>(lobj, s2).
          and_then (Nan_GetOwnPropertyNames s2 lobj) (\<lambda>(maybe, s3).
            case maybe of
              None \<Rightarrow> Inr (Some False, HandleScope_dtor s3 (prev_next scope))
            | Some larr \<Rightarrow>
                and_then (Persistent_Reset_to s3 out (Some larr)) (\<lambda>s4.
                  Inr (None, HandleScope_dtor s4 (prev_next scope))))))"

text \<open>
  \<open>Neon_String_New\<close>:
  \<^verbatim>\<open>
  Nan::HandleScope scope;
  Nan::MaybeLocal<v8::String> maybe = v8::String::NewFromUtf8(isolate, (const char*)data, v8::NewStringType::kNormal, len);
  v8::Local<v8::String> local;
  if (!maybe.ToLocal(&local)) {
    return false;
  }
  out->Reset(isolate, local);
  return true;
  \<close>
\<close>

definition Neon_String_New ::
  "state \<Rightarrow> addr \<Rightarrow> string \<Rightarrow> 32 word \<Rightarrow> fault + (bool \<times> state)" where
  "Neon_String_New s out data len =
     (case HandleScope_ctor s of (scope, s1) \<Rightarrow>
        and_then (String_NewFromUtf8 s1 data (sint len)) (\<lambda>(maybe, s2).
          case maybe of
            None \<Rightarrow> Inr (False, HandleScope_dtor s2 (prev_next scope))
          | Some local \<Rightarrow>
              and_then (Persistent_Reset_to s2 out (Some local)) (\<lambda>s3.
                Inr (True, HandleScope_dtor s3 (prev_next scope)))))"

subsection \<open>Errors\<close>

text \<open>
  \<open>Neon_Error_ThrowErrorFromUtf8\<close>:
  \<^verbatim>\<open>
  Nan::MaybeLocal<v8::String> maybe = v8::String::NewFromUtf8(isolate, (const char*)data, v8::NewStringType::kNormal, len);
  v8::Local<v8::String> msg;
  if (!maybe.ToLocal(&msg)) {
    Nan::ThrowError("an unknown Neon error occurred");
    return;
  }
  v8::Local<v8::Value> err = v8::Exception::Error(msg);
  Nan::ThrowError(err);
  \<close>
\<close>

definition Neon_Error_ThrowErrorFromUtf8 :: "state \<Rightarrow> string \<Rightarrow> 32 word \<Rightarrow> fault + state" where
  "Neon_Error_ThrowErrorFromUtf8 s data len =
     and_then (String_NewFromUtf8 s data (sint len)) (\<lambda>(maybe, s1).
       case maybe of
         None \<Rightarrow> Nan_ThrowError_cstr s1 ''an unknown Neon error occurred''
       | Some msg \<Rightarrow>
           and_then (Exception_Error s1 (Some msg)) (\<lambda>(err, s2). Nan_ThrowError s2 err))"

subsection \<open>Classes\<close>

text \<open>
  \<open>Neon_Class_ConstructBaseCallback\<close>:
  \<^verbatim>\<open>
  Nan::HandleScope scope;
  v8::Local<v8::External> wrapper = v8::Local<v8::External>::Cast(info.Data());
  neon::BaseClassMetadata *metadata = static_cast<neon::BaseClassMetadata *>(wrapper->Value());
  if (info.IsConstructCall()) {
    metadata->construct(info);
  } else {
    metadata->call(info);
  }
  \<close>
\<close>

definition Neon_Class_ConstructBaseCallback :: "state \<Rightarrow> FunctionCallbackInfo \<Rightarrow> fault + state" where
  "Neon_Class_ConstructBaseCallback s info =
     (case HandleScope_ctor s of (scope, s1) \<Rightarrow>
        and_then (External_Value s1 (info_data info)) (\<lambda>metadata.
          and_then
            (if info_is_construct_call info
             then BaseClassMetadata_construct s1 metadata info
             else BaseClassMetadata_call s1 metadata info)
            (\<lambda>s2. Inr (HandleScope_dtor s2 (prev_next scope)))))"

text \<open>
  \<open>Neon_Class_CreateBase\<close>: the metadata object is allocated on the native heap, wrapped
  in an \<open>External\<close>, and that is the data of a new function template whose callback is
  \<open>Neon_Class_ConstructBaseCallback\<close>. The pointer to the metadata is returned.
\<close>

definition Neon_Class_CreateBase ::
  "state \<Rightarrow> callback_t \<Rightarrow> callback_t \<Rightarrow> callback_t \<Rightarrow> fnptr \<Rightarrow> fault + (addr \<times> state)" where
  "Neon_Class_CreateBase s allocate_cb construct_cb call_cb drop_cb =
     (let metadata = length (classes s);
          s1 = s\<lparr>classes := classes s @
                 [\<lparr>md_construct_callback = static_callback construct_cb,
                   md_construct_kernel = dynamic_callback construct_cb,
                   md_call_callback = static_callback call_cb,
                   md_call_kernel = dynamic_callback call_cb,
                   md_allocate_callback = static_callback allocate_cb,
                   md_allocate_kernel = dynamic_callback allocate_cb,
                   md_drop_kernel = drop_cb,
                   md_template = None,
                   md_name = []\<rparr>]\<rparr>
      in and_then (External_New s1 metadata) (\<lambda>(data, s2).
           and_then (FunctionTemplate_New s2 ConstructBaseCallback_ptr data)
             (\<lambda>(constructor_template, s3).
               and_then (ClassMetadata_SetTemplate s3 metadata constructor_template) (\<lambda>s4.
                 and_then (FunctionTemplate_InstanceTemplate s4 constructor_template)
                   (\<lambda>(instance_template, s5).
                     and_then (ObjectTemplate_SetInternalFieldCount s5 instance_template 1)
                       (\<lambda>s6. Inr (metadata, s6)))))))"

text \<open>
  \<open>Neon_Class_SetName\<close>; \<open>byte_length\<close> is a \<open>uint32_t\<close> passed for the \<open>int\<close>
  length of \<open>NewFromUtf8\<close>.
  \<^verbatim>\<open>
  v8::Local<v8::FunctionTemplate> ft = metadata->GetTemplate(isolate);
  v8::MaybeLocal<v8::String> maybe_class_name = v8::String::NewFromUtf8(isolate, name, v8::NewStringType::kNormal, byte_length);
  v8::Local<v8::String> class_name;
  if (!maybe_class_name.ToLocal(&class_name)) {
    return false;
  }
  ft->SetClassName(class_name);
  metadata->SetName(neon::Slice(name, byte_length));
  return true;
  \<close>
\<close>

definition Neon_Class_SetName ::
  "state \<Rightarrow> addr \<Rightarrow> string \<Rightarrow> 32 word \<Rightarrow> fault + (bool \<times> state)" where
  "Neon_Class_SetName s metadata name byte_length =
     and_then (ClassMetadata_GetTemplate s metadata) (\<lambda>(ft, s1).
       and_then (String_NewFromUtf8 s1 name (sint byte_length)) (\<lambda>(maybe_class_name, s2).
         case maybe_class_name of
           None \<Rightarrow> Inr (False, s2)
         | Some class_name \<Rightarrow>
             and_then (FunctionTemplate_SetClassName s2 ft (Some class_name)) (\<lambda>s3.
               and_then (ClassMetadata_SetName s3 metadata (take (unat byte_length) name))
                 (\<lambda>s4. Inr (True, s4)))))"


subsection \<open>The host's call into a class\<close>

text \<open>
  How the host runs a function made from a function template, as \<open>new T(...)\<close> or as
  \<open>T(...)\<close>: it calls the template's callback with a \<open>FunctionCallbackInfo\<close> that
  carries the template's data and tells how the call was made.
\<close>

definition host_invoke ::
  "state \<Rightarrow> tagged \<Rightarrow> bool \<Rightarrow> tagged \<Rightarrow> tagged list \<Rightarrow> fault + state" where
  "host_invoke s ft is_new this args =
     (case object_at s ft of
        Some (FunctionTemplate t) \<Rightarrow>
          (case ft_callback t of
             ConstructBaseCallback_ptr \<Rightarrow>
               Neon_Class_ConstructBaseCallback s
                 \<lparr>info_data = ft_data t, info_is_construct_call = is_new,
                  info_this = this, info_args = args\<rparr>
           | RustFn n \<Rightarrow>
               Inr (s\<lparr>trace := trace s @
                      [RustCallback n \<lparr>info_data = ft_data t, info_is_construct_call = is_new,
                                      info_this = this, info_args = args\<rparr>]\<rparr>))
      | _ \<Rightarrow> Inl BadCast)"

text \<open>\<open>ft\<close> is a function template made by \<open>Neon_Class_CreateBase\<close> for the metadata
  at \<open>m\<close>: its callback is \<open>Neon_Class_ConstructBaseCallback\<close> and its data is an
  \<open>External\<close> that wraps \<open>m\<close>.\<close>

definition is_class_constructor :: "state \<Rightarrow> tagged \<Rightarrow> addr \<Rightarrow> bool" where
  "is_class_constructor s ft m =
     (case object_at s ft of
        Some (FunctionTemplate t) \<Rightarrow>
          ft_callback t = ConstructBaseCallback_ptr \<and>
          External_Value s (ft_data t) = Inr m \<and> m < length (classes s)
      | _ \<Rightarrow> False)"

subsection \<open>Code running in a scope\<close>

text \<open>
  What native code does with handles in the scope it runs in: it creates handles and runs
  further code in nested scopes, entered with \<open>Neon_Scope_Enter\<close> and left with
  \<open>Neon_Scope_Exit\<close>.
\<close>

datatype scope_op = Alloc tagged | Nested "scope_op list"

fun run_op :: "state \<Rightarrow> scope_op \<Rightarrow> fault + state"
  and run_ops :: "state \<Rightarrow> scope_op list \<Rightarrow> fault + state" where
  "run_op s (Alloc v) = and_then (CreateHandle s v) (\<lambda>(i, s1). Inr s1)"
| "run_op s (Nested body) =
     (case Neon_Scope_Enter s of (scope, s1) \<Rightarrow>
        and_then (run_ops s1 body) (\<lambda>s2. Inr (Neon_Scope_Exit s2 scope)))"
| "run_ops s [] = Inr s"
| "run_ops s (x # xs) = and_then (run_op s x) (\<lambda>s1. run_ops s1 xs)"

subsection \<open>Well-formed arguments and an example state\<close>

text \<open>\<open>p\<close> is the address of a \<open>v8::Persistent\<close> that is empty or owns a live global
  handle node.\<close>

definition persistent_ok :: "state \<Rightarrow> addr \<Rightarrow> bool" where
  "persistent_ok s p =
     (case persistents s p of
        None \<Rightarrow> False
      | Some None \<Rightarrow> True
      | Some (Some g) \<Rightarrow> g < length (globals s) \<and> globals s ! g \<noteq> None)"

text \<open>\<open>m\<close> points to the metadata of a class whose constructor template is the function
  template at address \<open>f\<close>, with its prototype template, if it has one already, in the
  heap.\<close>

definition registered_class :: "state \<Rightarrow> addr \<Rightarrow> addr \<Rightarrow> bool" where
  "registered_class s m f =
     (m < length (classes s) \<and> md_template (classes s ! m) = Some (HeapObject f) \<and>
      (case function_template_of s f of
         None \<Rightarrow> False
       | Some t \<Rightarrow>
           (case ft_prototype_template t of
              None \<Rightarrow> True
            | Some ot \<Rightarrow> object_template_of s ot \<noteq> None)))"

text \<open>
  A state inside a host callback: one scope is open; a class is registered, with one
  method \<open>go\<close> on its prototype; the heap also holds a second method template, two
  distinct empty objects, a property key, an object with one property and a proxy whose
  \<open>ownKeys\<close> trap throws; four local handles and four persistent handles exist.
\<close>

definition example_state :: state where
  "example_state =
     \<lparr>heap =
        [External 0,
         FunctionTemplate \<lparr>ft_callback = ConstructBaseCallback_ptr, ft_data = HeapObject 0,
            ft_prototype_template = Some 3, ft_instance_template = Some 2,
            ft_class_name = None\<rparr>,
         ObjectTemplate \<lparr>ot_properties = [], ot_internal_field_count = 1\<rparr>,
         ObjectTemplate \<lparr>ot_properties = [(HeapObject 4, HeapObject 5)],
            ot_internal_field_count = 0\<rparr>,
         JSString ''go'',
         FunctionTemplate \<lparr>ft_callback = RustFn 7, ft_data = Undefined,
            ft_prototype_template = None, ft_instance_template = None, ft_class_name = None\<rparr>,
         FunctionTemplate \<lparr>ft_callback = RustFn 8, ft_data = Undefined,
            ft_prototype_template = None, ft_instance_template = None, ft_class_name = None\<rparr>,
         JSObject [],
         JSObject [],
         JSString ''x'',
         JSObject [(HeapObject 9, Smi 1)],
         JSProxy (Inl (Smi 13))],
      slots = [HeapObject 6, HeapObject 7, HeapObject 8, HeapObject 7],
      level = 1,
      globals = [Some (HeapObject 7), Some (HeapObject 10), Some (HeapObject 11)],
      persistents = [100 \<mapsto> Some 0, 101 \<mapsto> None, 102 \<mapsto> Some 1, 103 \<mapsto> Some 2],
      classes =
        [\<lparr>md_construct_callback = RustFn 2, md_construct_kernel = 12,
          md_call_callback = RustFn 3, md_call_kernel = 13,
          md_allocate_callback = RustFn 1, md_allocate_kernel = 11,
          md_drop_kernel = RustFn 4,
          md_template = Some (HeapObject 1), md_name = []\<rparr>],
      pending_exception = None,
      trace = []\<rparr>"

section \<open>Properties\<close>

subsection \<open>Auxiliary facts\<close>

lemma and_then_Inr [simp]: "and_then (Inr x) f = f x"
  by (simp add: and_then_def)

lemma and_then_Inl [simp]: "and_then (Inl e) f = Inl e"
  by (simp add: and_then_def)

lemma and_then_Inr_iff:
  "and_then r f = Inr y \<longleftrightarrow> (\<exists>x. r = Inr x \<and> f x = Inr y)"
  by (cases r) simp_all

lemma prefix_nth:
  "take n xs = ys \<Longrightarrow> i < length ys \<Longrightarrow> xs ! i = ys ! i"
  by (metis length_take min_less_iff_conj nth_take)

lemma function_template_of_Some:
  "function_template_of s a = Some t \<longleftrightarrow> object_at s (HeapObject a) = Some (FunctionTemplate t)"
  by (simp add: function_template_of_def split: option.splits hobject.splits)

lemma object_template_of_Some:
  "object_template_of s a = Some t \<longleftrightarrow> object_at s (HeapObject a) = Some (ObjectTemplate t)"
  by (simp add: object_template_of_def split: option.splits hobject.splits)

lemma registered_classD:
  assumes "registered_class s m f"
  shows "m < length (classes s)" "md_template (classes s ! m) = Some (HeapObject f)"
    "\<exists>t. object_at s (HeapObject f) = Some (FunctionTemplate t) \<and>
         (\<forall>ot. ft_prototype_template t = Some ot \<longrightarrow>
            (\<exists>p. object_at s (HeapObject ot) = Some (ObjectTemplate p)))"
  using assms
  by (auto simp: registered_class_def function_template_of_Some object_template_of_Some
      split: option.splits)

text \<open>Code running in a scope leaves the slots below it, the scope level, the global
  handles and the persistent handles as they were, and it cannot fail while a scope is
  open.\<close>

lemma run_frame:
  "run_op s x = Inr s' \<longrightarrow>
     take (length (slots s)) (slots s') = slots s \<and> length (slots s) \<le> length (slots s') \<and>
     level s' = level s \<and> globals s' = globals s \<and> persistents s' = persistents s"
  "run_ops s xs = Inr s' \<longrightarrow>
     take (length (slots s)) (slots s') = slots s \<and> length (slots s) \<le> length (slots s') \<and>
     level s' = level s \<and> globals s' = globals s \<and> persistents s' = persistents s"
proof (induction s x and s xs arbitrary: s' and s' rule: run_op_run_ops.induct)
  case (1 s v)
  then show ?case by (auto simp: CreateHandle_def split: if_splits)
next
  case (2 s body)
  then show ?case
    by (auto simp: Neon_Scope_Enter_def Neon_Scope_Exit_def HandleScope_ctor_def
        HandleScope_dtor_def and_then_Inr_iff)
next
  case (3 s)
  then show ?case by simp
next
  case (4 s x xs)
  show ?case
  proof
    assume "run_ops s (x # xs) = Inr s'"
    then obtain s1 where a: "run_op s x = Inr s1" and b: "run_ops s1 xs = Inr s'"
      by (auto simp: and_then_Inr_iff)
    from 4(1)[of s1] a
    have f1: "take (length (slots s)) (slots s1) = slots s" "length (slots s) \<le> length (slots s1)"
      "level s1 = level s" "globals s1 = globals s" "persistents s1 = persistents s"
      by auto
    from 4(2)[of s1 s'] b
    have f2: "take (length (slots s1)) (slots s') = slots s1"
      "length (slots s1) \<le> length (slots s')" "level s' = level s1"
      "globals s' = globals s1" "persistents s' = persistents s1"
      by auto
    have "take (length (slots s)) (slots s') =
          take (length (slots s)) (take (length (slots s1)) (slots s'))"
      using f1(2) by (simp add: min_def)
    with f1 f2
    show "take (length (slots s)) (slots s') = slots s \<and>
          length (slots s) \<le> length (slots s') \<and> level s' = level s \<and>
          globals s' = globals s \<and> persistents s' = persistents s"
      by simp
  qed
qed

lemma run_total:
  "0 < level s \<Longrightarrow> \<exists>s'. run_op s x = Inr s'"
  "0 < level s \<Longrightarrow> \<exists>s'. run_ops s xs = Inr s'"
proof (induction s x and s xs rule: run_op_run_ops.induct)
  case (1 s v)
  then show ?case by (simp add: CreateHandle_def)
next
  case (2 s body)
  have "\<exists>s'. run_ops (s\<lparr>level := level s + 1\<rparr>) body = Inr s'"
    by (rule 2(1)[of "\<lparr>prev_next = length (slots s)\<rparr>"])
       (simp_all add: Neon_Scope_Enter_def HandleScope_ctor_def)
  then show ?case
    by (auto simp: Neon_Scope_Enter_def HandleScope_ctor_def)
next
  case (3 s)
  then show ?case by simp
next
  case (4 s x xs)
  from 4(1)[OF 4(3)] obtain s1 where a: "run_op s x = Inr s1" by blast
  with run_frame(1)[of s x s1] have "0 < level s1" using 4(3) by simp
  from 4(2)[OF this] a show ?case by auto
qed

subsection \<open>Class dispatch\<close>

lemma dispatch:
  assumes "External_Value s (info_data info) = Inr m" "m < length (classes s)"
  shows "Neon_Class_ConstructBaseCallback s info =
           Inr (s\<lparr>trace := trace s @
                  [if info_is_construct_call info then MetadataConstruct m info
                   else MetadataCall m info]\<rparr>)"
  using assms
  by (auto simp: Neon_Class_ConstructBaseCallback_def HandleScope_ctor_def HandleScope_dtor_def
      External_Value_def object_at_def BaseClassMetadata_construct_def BaseClassMetadata_call_def
      split: tagged.splits option.splits hobject.splits if_splits)

lemma CreateBase_result:
  assumes "0 < level s"
  shows "Neon_Class_CreateBase s a c k d =
    Inr (length (classes s),
         s\<lparr>heap := heap s @
              [External (length (classes s)),
               FunctionTemplate \<lparr>ft_callback = ConstructBaseCallback_ptr,
                  ft_data = HeapObject (length (heap s)), ft_prototype_template = None,
                  ft_instance_template = Some (length (heap s) + 2), ft_class_name = None\<rparr>,
               ObjectTemplate \<lparr>ot_properties = [], ot_internal_field_count = 1\<rparr>],
            slots := slots s @ [HeapObject (length (heap s)), HeapObject (length (heap s) + 1),
                                HeapObject (length (heap s) + 2)],
            classes := classes s @
              [\<lparr>md_construct_callback = static_callback c,
                md_construct_kernel = dynamic_callback c,
                md_call_callback = static_callback k,
                md_call_kernel = dynamic_callback k,
                md_allocate_callback = static_callback a,
                md_allocate_kernel = dynamic_callback a,
                md_drop_kernel = d,
                md_template = Some (HeapObject (length (heap s) + 1)),
                md_name = []\<rparr>]\<rparr>)"
  using assms
  by (simp add: Neon_Class_CreateBase_def Let_def External_New_def allocate_def CreateHandle_def
      FunctionTemplate_New_def deref_def ClassMetadata_SetTemplate_def
      FunctionTemplate_InstanceTemplate_def function_template_at_def object_at_def
      ObjectTemplate_SetInternalFieldCount_def object_template_at_def nth_append
      list_update_append)

lemma host_invoke_dispatch:
  assumes "is_class_constructor s ft m"
  shows "\<exists>data. host_invoke s ft is_new this args =
           Inr (s\<lparr>trace := trace s @
             [(if is_new then MetadataConstruct else MetadataCall) m
                \<lparr>info_data = data, info_is_construct_call = is_new,
                 info_this = this, info_args = args\<rparr>]\<rparr>)"
proof -
  from assms obtain t where t: "object_at s ft = Some (FunctionTemplate t)"
    "ft_callback t = ConstructBaseCallback_ptr" "External_Value s (ft_data t) = Inr m"
    "m < length (classes s)"
    by (auto simp: is_class_constructor_def split: option.splits hobject.splits)
  let ?info = "\<lparr>info_data = ft_data t, info_is_construct_call = is_new,
                info_this = this, info_args = args\<rparr>"
  have "host_invoke s ft is_new this args = Neon_Class_ConstructBaseCallback s ?info"
    using t(1,2) by (simp add: host_invoke_def)
  also have "\<dots> = Inr (s\<lparr>trace := trace s @
               [if info_is_construct_call ?info then MetadataConstruct m ?info
                else MetadataCall m ?info]\<rparr>)"
    by (rule dispatch) (simp_all add: t)
  finally show ?thesis by auto
qed

text \<open>
  C1. A class is registered with \<open>Neon_Class_CreateBase\<close> while a scope is open. The
  metadata keeps the registered construct and call callbacks, and its constructor template
  carries \<open>Neon_Class_ConstructBaseCallback\<close> and the metadata. In every state in which
  it still does, whenever the host invokes that template, the callback runs the metadata's
  \<open>construct\<close> if the call is a construct call and its \<open>call\<close> otherwise: the trace
  grows by exactly that one entry, and nothing else of the state changes.
\<close>

theorem constructor_dispatch:
  assumes "0 < level s"
  shows "\<exists>s1 ft.
      Neon_Class_CreateBase s allocate_cb construct_cb call_cb drop_cb
        = Inr (length (classes s), s1) \<and>
      md_template (classes s1 ! length (classes s)) = Some ft \<and>
      md_construct_callback (classes s1 ! length (classes s)) = static_callback construct_cb \<and>
      md_call_callback (classes s1 ! length (classes s)) = static_callback call_cb \<and>
      is_class_constructor s1 ft (length (classes s)) \<and>
      (\<forall>s' is_new this args.
         is_class_constructor s' ft (length (classes s)) \<longrightarrow>
         (\<exists>data. host_invoke s' ft is_new this args =
           Inr (s'\<lparr>trace := trace s' @
             [(if is_new then MetadataConstruct else MetadataCall) (length (classes s))
                \<lparr>info_data = data, info_is_construct_call = is_new,
                 info_this = this, info_args = args\<rparr>]\<rparr>)))"
proof -
  let ?m = "length (classes s)" and ?h = "length (heap s)"
  obtain s1 where
    cb: "Neon_Class_CreateBase s allocate_cb construct_cb call_cb drop_cb = Inr (?m, s1)"
    and cl: "classes s1 ! ?m =
               \<lparr>md_construct_callback = static_callback construct_cb,
                md_construct_kernel = dynamic_callback construct_cb,
                md_call_callback = static_callback call_cb,
                md_call_kernel = dynamic_callback call_cb,
                md_allocate_callback = static_callback allocate_cb,
                md_allocate_kernel = dynamic_callback allocate_cb,
                md_drop_kernel = drop_cb,
                md_template = Some (HeapObject (?h + 1)),
                md_name = []\<rparr>"
    and len: "length (classes s1) = Suc ?m" "length (heap s1) = ?h + 3"
    and ext: "heap s1 ! ?h = External ?m"
    and ft: "heap s1 ! (?h + 1) =
               FunctionTemplate \<lparr>ft_callback = ConstructBaseCallback_ptr,
                  ft_data = HeapObject ?h, ft_prototype_template = None,
                  ft_instance_template = Some (?h + 2), ft_class_name = None\<rparr>"
    by (simp add: CreateBase_result[OF assms] nth_append)
  have "is_class_constructor s1 (HeapObject (?h + 1)) ?m"
    using ext ft by (simp add: is_class_constructor_def External_Value_def object_at_def len)
  with cb cl host_invoke_dispatch[of _ "HeapObject (?h + 1)" ?m] show ?thesis
    by auto
qed

theorem constructor_dispatch_witness:
  "0 < level example_state \<and>
   (\<exists>s1 ft.
      Neon_Class_CreateBase example_state
        \<lparr>static_callback = RustFn 21, dynamic_callback = 31\<rparr>
        \<lparr>static_callback = RustFn 22, dynamic_callback = 32\<rparr>
        \<lparr>static_callback = RustFn 23, dynamic_callback = 33\<rparr> (RustFn 24) = Inr (1, s1) \<and>
      md_template (classes s1 ! 1) = Some ft \<and>
      md_construct_callback (classes s1 ! 1) = RustFn 22 \<and>
      md_call_callback (classes s1 ! 1) = RustFn 23 \<and>
      is_class_constructor s1 ft 1 \<and>
      trace s1 = [] \<and>
      (\<exists>s2 data. host_invoke s1 ft True Undefined [] = Inr s2 \<and>
         trace s2 = [MetadataConstruct 1
            \<lparr>info_data = data, info_is_construct_call = True,
             info_this = Undefined, info_args = []\<rparr>]) \<and>
      (\<exists>s2 data. host_invoke s1 ft False Undefined [Smi 3] = Inr s2 \<and>
         trace s2 = [MetadataCall 1
            \<lparr>info_data = data, info_is_construct_call = False,
             info_this = Undefined, info_args = [Smi 3]\<rparr>]))"
proof -
  have h: "0 < level example_state"
    by (simp add: example_state_def)
  have t: "trace s1 = []"
    if "Neon_Class_CreateBase example_state a c k d = Inr (m, s1)" for a c k d m s1
    using that by (simp add: CreateBase_result[OF h]) (auto simp: example_state_def)
  from constructor_dispatch[OF h,
      of "\<lparr>static_callback = RustFn 21, dynamic_callback = 31\<rparr>"
         "\<lparr>static_callback = RustFn 22, dynamic_callback = 32\<rparr>"
         "\<lparr>static_callback = RustFn 23, dynamic_callback = 33\<rparr>" "RustFn 24"]
  obtain s1 ft where
    a: "Neon_Class_CreateBase example_state
        \<lparr>static_callback = RustFn 21, dynamic_callback = 31\<rparr>
        \<lparr>static_callback = RustFn 22, dynamic_callback = 32\<rparr>
        \<lparr>static_callback = RustFn 23, dynamic_callback = 33\<rparr> (RustFn 24) = Inr (1, s1)"
    and b: "md_template (classes s1 ! 1) = Some ft"
      "md_construct_callback (classes s1 ! 1) = RustFn 22"
      "md_call_callback (classes s1 ! 1) = RustFn 23"
      "is_class_constructor s1 ft 1"
    and c: "\<And>s' is_new this args. is_class_constructor s' ft 1 \<Longrightarrow>
         \<exists>data. host_invoke s' ft is_new this args =
           Inr (s'\<lparr>trace := trace s' @
             [(if is_new then MetadataConstruct else MetadataCall) 1
                \<lparr>info_data = data, info_is_construct_call = is_new,
                 info_this = this, info_args = args\<rparr>]\<rparr>)"
    by (auto simp: example_state_def)
  from t[OF a] have e: "trace s1 = []" .
  from c[OF b(4), of True Undefined "[]"] e
  have c1: "\<exists>s2 data. host_invoke s1 ft True Undefined [] = Inr s2 \<and>
         trace s2 = [MetadataConstruct 1
            \<lparr>info_data = data, info_is_construct_call = True,
             info_this = Undefined, info_args = []\<rparr>]"
    by auto
  from c[OF b(4), of False Undefined "[Smi 3]"] e
  have c2: "\<exists>s2 data. host_invoke s1 ft False Undefined [Smi 3] = Inr s2 \<and>
         trace s2 = [MetadataCall 1
            \<lparr>info_data = data, info_is_construct_call = False,
             info_this = Undefined, info_args = [Smi 3]\<rparr>]"
    by auto
  from h a b e c1 c2 show ?thesis
    by blast
qed

subsection \<open>Persistent handles\<close>



text \<open>
  C3. A handle \<open>h\<close> is stored into a persistent handle \<open>p\<close> with
  \<open>Neon_Mem_ResetPersistent\<close>. In every later state in which a scope is open and the
  global handles and \<open>p\<close> are as the reset left them, \<open>Neon_Mem_ReadPersistent\<close> gives a
  handle that refers to the very host value \<open>h\<close> referred to.
\<close>

theorem reset_read_roundtrip:
  assumes p: "persistent_ok s p"
    and h: "valid s h"
  shows "\<exists>s1. Neon_Mem_ResetPersistent s p h = Inr s1 \<and>
           (\<forall>s'. globals s' = globals s1 \<and> persistents s' p = persistents s1 p \<and> 0 < level s' \<longrightarrow>
              (\<exists>out s2. Neon_Mem_ReadPersistent s' p = Inr (out, s2) \<and> valid s2 out \<and>
                 referent s2 out = referent s h))"
proof -
  from h obtain i where i: "h = Some i" "i < length (slots s)"
    by (auto simp: valid_def split: option.splits)
  from p consider "persistents s p = Some None"
    | g where "persistents s p = Some (Some g)" "g < length (globals s)" "globals s ! g \<noteq> None"
    by (auto simp: persistent_ok_def split: option.splits)
  then show ?thesis
  proof cases
    case 1
    with i show ?thesis
      by (auto simp: Neon_Mem_ResetPersistent_def Persistent_Reset_to_def Persistent_Reset_def
          deref_def Neon_Mem_ReadPersistent_def Nan_New_Persistent_def CreateHandle_def
          referent_def valid_def)
  next
    case 2
    with i show ?thesis
      by (auto simp: Neon_Mem_ResetPersistent_def Persistent_Reset_to_def Persistent_Reset_def
          DisposeGlobal_def deref_def Neon_Mem_ReadPersistent_def Nan_New_Persistent_def
          CreateHandle_def referent_def valid_def nth_append)
  qed
qed

theorem reset_read_roundtrip_witness:
  "persistent_ok example_state 100 \<and> valid example_state (Some 2) \<and>
   referent example_state (Some 2) = Some (HeapObject 8) \<and>
   (\<exists>s1. Neon_Mem_ResetPersistent example_state 100 (Some 2) = Inr s1 \<and> 0 < level s1 \<and>
      (\<exists>out s2. Neon_Mem_ReadPersistent s1 100 = Inr (out, s2) \<and> valid s2 out \<and>
         referent s2 out = Some (HeapObject 8)))"
proof -
  have h: "persistent_ok example_state 100" "valid example_state (Some 2)"
    and r: "referent example_state (Some 2) = Some (HeapObject 8)"
    by (simp_all add: persistent_ok_def valid_def referent_def example_state_def)
  from reset_read_roundtrip[OF h] obtain s1 where
    a: "Neon_Mem_ResetPersistent example_state 100 (Some 2) = Inr s1"
    and b: "\<And>s'. globals s' = globals s1 \<and> persistents s' 100 = persistents s1 100 \<and> 0 < level s' \<Longrightarrow>
              (\<exists>out s2. Neon_Mem_ReadPersistent s' 100 = Inr (out, s2) \<and> valid s2 out \<and>
                 referent s2 out = referent example_state (Some 2))"
    by blast
  from a have l: "0 < level s1"
    by (auto simp: Neon_Mem_ResetPersistent_def Persistent_Reset_to_def Persistent_Reset_def
        DisposeGlobal_def deref_def example_state_def)
  from b[of s1] l r a h show ?thesis
    by auto
qed

subsection \<open>Handles and scopes\<close>

text \<open>
  C8. For two live handles, \<open>Neon_Mem_SameHandle\<close> answers whether they refer to the same
  host value: it is true of a handle and itself, and it is false of handles to two
  distinct heap objects even when the two objects have equal contents.
\<close>

theorem same_handle_is_identity:
  assumes "valid s v1" "valid s v2"
  shows "Neon_Mem_SameHandle s v1 v2 = Inr (referent s v1 = referent s v2) \<and>
         Neon_Mem_SameHandle s v1 v1 = Inr True \<and>
         (\<forall>a b. referent s v1 = Some (HeapObject a) \<and> referent s v2 = Some (HeapObject b) \<and>
                 a \<noteq> b \<and> object_at s (HeapObject a) = object_at s (HeapObject b) \<longrightarrow>
                 Neon_Mem_SameHandle s v1 v2 = Inr False)"
  using assms
  by (auto simp: Neon_Mem_SameHandle_def Local_eq_def referent_def valid_def deref_def
      split: option.splits)

theorem same_handle_is_identity_witness:
  "valid example_state (Some 1) \<and> valid example_state (Some 2) \<and>
   valid example_state (Some 3) \<and>
   referent example_state (Some 1) = Some (HeapObject 7) \<and>
   referent example_state (Some 2) = Some (HeapObject 8) \<and>
   referent example_state (Some 3) = Some (HeapObject 7) \<and>
   object_at example_state (HeapObject 7) = object_at example_state (HeapObject 8) \<and>
   Neon_Mem_SameHandle example_state (Some 1) (Some 2) = Inr False \<and>
   Neon_Mem_SameHandle example_state (Some 1) (Some 3) = Inr True \<and>
   Neon_Mem_SameHandle example_state (Some 1) (Some 1) = Inr True"
proof -
  have h: "valid example_state (Some 1)" "valid example_state (Some 2)"
    "valid example_state (Some 3)"
    and r: "referent example_state (Some 1) = Some (HeapObject 7)"
    "referent example_state (Some 2) = Some (HeapObject 8)"
    "referent example_state (Some 3) = Some (HeapObject 7)"
    "object_at example_state (HeapObject 7) = object_at example_state (HeapObject 8)"
    by (simp_all add: valid_def referent_def object_at_def example_state_def)
  from same_handle_is_identity[OF h(1) h(2)] same_handle_is_identity[OF h(1) h(3)] h r
  show ?thesis
    by simp
qed

text \<open>A scope escapes once: after a first escape the host refuses a second.\<close>

lemma escape_twice_refused:
  assumes "Neon_Scope_Escape s scope (Some i) = Inr (out, s3)" "referent s (Some i) \<noteq> Some TheHole"
  shows "Neon_Scope_Escape s3 scope v = Inl EscapeTwice"
  using assms
  by (auto simp: Neon_Scope_Escape_def Escape_def deref_def referent_def and_then_Inr_iff
      split: if_splits)

lemma escape_step:
  assumes parent: "0 < level s"
    and enter: "Neon_Scope_Enter_Escapable s = Inr (scope, s1)"
    and body: "run_ops s1 body = Inr s2"
    and created: "i < length (slots s2)"
  shows "\<exists>s3. Neon_Scope_Escape s2 scope (Some i) = Inr (Some (escape_slot scope), s3) \<and>
           referent s3 (Some (escape_slot scope)) = referent s2 (Some i) \<and>
           escape_slot scope < prev_next scope \<and>
           (\<forall>rest. \<exists>s5. run_ops (Neon_Scope_Exit_Escapable s3 scope) rest = Inr s5 \<and>
              valid s5 (Some (escape_slot scope)) \<and>
              referent s5 (Some (escape_slot scope)) = referent s2 (Some i))"
proof -
  let ?n = "length (slots s)"
  from parent enter have sc: "escape_slot scope = ?n" "prev_next scope = Suc ?n"
    and s1: "slots s1 = slots s @ [TheHole]" "level s1 = level s + 1"
    by (auto simp: Neon_Scope_Enter_Escapable_def EscapableHandleScope_ctor_def CreateHandle_def)
  from run_frame(2)[of s1 body s2] body
  have fr: "take (Suc ?n) (slots s2) = slots s @ [TheHole]" "Suc ?n \<le> length (slots s2)"
    "level s2 = level s + 1"
    by (simp_all add: s1)
  have hole: "slots s2 ! ?n = TheHole"
    using prefix_nth[OF fr(1), of ?n] by simp
  define s3 where "s3 = s2\<lparr>slots := (slots s2)[?n := slots s2 ! i]\<rparr>"
  have esc: "Neon_Scope_Escape s2 scope (Some i) = Inr (Some (escape_slot scope), s3)"
    using fr(2) hole created
    by (simp add: Neon_Scope_Escape_def Escape_def deref_def sc s3_def)
  have ref3: "referent s3 (Some (escape_slot scope)) = referent s2 (Some i)"
    using fr(2) created by (simp add: referent_def sc s3_def)
  define s4 where "s4 = Neon_Scope_Exit_Escapable s3 scope"
  have s4: "slots s4 = slots s @ [slots s2 ! i]" "level s4 = level s"
  proof -
    have "take (Suc ?n) ((slots s2)[?n := slots s2 ! i]) =
          (take (Suc ?n) (slots s2))[?n := slots s2 ! i]"
      by (simp add: take_update_swap)
    also have "\<dots> = slots s @ [slots s2 ! i]"
      by (simp add: fr(1))
    finally show "slots s4 = slots s @ [slots s2 ! i]"
      by (simp add: s4_def Neon_Scope_Exit_Escapable_def HandleScope_dtor_def sc s3_def)
    show "level s4 = level s"
      by (simp add: s4_def Neon_Scope_Exit_Escapable_def HandleScope_dtor_def s3_def fr(3))
  qed
  have later: "\<exists>s5. run_ops s4 rest = Inr s5 \<and> valid s5 (Some (escape_slot scope)) \<and>
      referent s5 (Some (escape_slot scope)) = referent s2 (Some i)" for rest
  proof -
    from run_total(2)[of s4 rest] parent obtain s5 where r: "run_ops s4 rest = Inr s5"
      by (auto simp: s4)
    from run_frame(2)[of s4 rest s5] r
    have f5: "take (Suc ?n) (slots s5) = slots s @ [slots s2 ! i]"
      "Suc ?n \<le> length (slots s5)"
      by (simp_all add: s4)
    have "slots s5 ! ?n = slots s2 ! i"
      using prefix_nth[OF f5(1), of ?n] by simp
    with f5(2) created r show ?thesis
      by (simp add: valid_def referent_def sc)
  qed
  from esc ref3 later show ?thesis
    unfolding s4_def by (auto simp: sc)
qed

text \<open>
  C4. A scope is open (the parent). Then an escapable scope can be entered, and any code
  that creates handles and uses nested scopes runs in it to its end. Escaping a handle
  created inside the escapable scope succeeds: \<open>Neon_Scope_Escape\<close> returns a handle in
  the escape slot, which lies below the escapable scope and so in the parent; it refers to
  the same host value as the handle escaped, and it still does, and is live, after the
  escapable scope is left and after any further code of that kind has run in the parent
  scope.
\<close>

theorem escape_preserves_referent:
  assumes parent: "0 < level s"
  shows "\<exists>scope s1. Neon_Scope_Enter_Escapable s = Inr (scope, s1) \<and>
     (\<forall>body. \<exists>s2. run_ops s1 body = Inr s2 \<and>
        (\<forall>i. prev_next scope \<le> i \<and> i < length (slots s2) \<longrightarrow>
           (\<exists>s3. Neon_Scope_Escape s2 scope (Some i) = Inr (Some (escape_slot scope), s3) \<and>
              referent s3 (Some (escape_slot scope)) = referent s2 (Some i) \<and>
              escape_slot scope < prev_next scope \<and>
              (\<forall>rest. \<exists>s5. run_ops (Neon_Scope_Exit_Escapable s3 scope) rest = Inr s5 \<and>
                 valid s5 (Some (escape_slot scope)) \<and>
                 referent s5 (Some (escape_slot scope)) = referent s2 (Some i)))))"
proof -
  from parent obtain scope s1 where enter: "Neon_Scope_Enter_Escapable s = Inr (scope, s1)"
    and l1: "0 < level s1"
    by (auto simp: Neon_Scope_Enter_Escapable_def EscapableHandleScope_ctor_def CreateHandle_def)
  have "\<exists>s2. run_ops s1 body = Inr s2 \<and>
        (\<forall>i. prev_next scope \<le> i \<and> i < length (slots s2) \<longrightarrow>
           (\<exists>s3. Neon_Scope_Escape s2 scope (Some i) = Inr (Some (escape_slot scope), s3) \<and>
              referent s3 (Some (escape_slot scope)) = referent s2 (Some i) \<and>
              escape_slot scope < prev_next scope \<and>
              (\<forall>rest. \<exists>s5. run_ops (Neon_Scope_Exit_Escapable s3 scope) rest = Inr s5 \<and>
                 valid s5 (Some (escape_slot scope)) \<and>
                 referent s5 (Some (escape_slot scope)) = referent s2 (Some i))))" for body
  proof -
    from run_total(2)[OF l1, of body] obtain s2 where body: "run_ops s1 body = Inr s2"
      by blast
    with escape_step[OF parent enter body] show ?thesis
      by blast
  qed
  with enter show ?thesis
    by blast
qed

theorem escape_preserves_referent_witness:
  "0 < level example_state \<and>
   (\<exists>scope s1 s2 s3 s5.
      Neon_Scope_Enter_Escapable example_state = Inr (scope, s1) \<and>
      run_ops s1 [Alloc (Smi 5), Nested [Alloc (Smi 6)]] = Inr s2 \<and>
      prev_next scope \<le> 5 \<and> 5 < length (slots s2) \<and>
      referent s2 (Some 5) = Some (Smi 5) \<and>
      Neon_Scope_Escape s2 scope (Some 5) = Inr (Some 4, s3) \<and>
      referent s3 (Some 4) = Some (Smi 5) \<and>
      run_ops (Neon_Scope_Exit_Escapable s3 scope) [Nested [Alloc Undefined], Alloc (Smi 7)]
        = Inr s5 \<and>
      valid s5 (Some 4) \<and> referent s5 (Some 4) = Some (Smi 5))"
proof -
  let ?s1 = "example_state\<lparr>slots := slots example_state @ [TheHole], level := 2\<rparr>"
  let ?s2 = "example_state\<lparr>slots := slots example_state @ [TheHole, Smi 5], level := 2\<rparr>"
  let ?scope = "\<lparr>prev_next = 5, escape_slot = 4\<rparr>"
  have h1: "0 < level example_state"
    by (simp add: example_state_def)
  have h2: "Neon_Scope_Enter_Escapable example_state = Inr (?scope, ?s1)"
    by (simp add: Neon_Scope_Enter_Escapable_def EscapableHandleScope_ctor_def CreateHandle_def
        example_state_def)
  have h3: "run_ops ?s1 [Alloc (Smi 5), Nested [Alloc (Smi 6)]] = Inr ?s2"
    by (simp add: CreateHandle_def example_state_def Neon_Scope_Enter_def Neon_Scope_Exit_def
        HandleScope_ctor_def HandleScope_dtor_def)
  have h4: "prev_next ?scope \<le> 5" "5 < length (slots ?s2)"
    by (simp_all add: example_state_def)
  have r: "referent ?s2 (Some 5) = Some (Smi 5)"
    by (simp add: referent_def example_state_def)
  from escape_preserves_referent[OF h1] h2 have
    "\<forall>body. \<exists>s2. run_ops ?s1 body = Inr s2 \<and>
        (\<forall>i. prev_next ?scope \<le> i \<and> i < length (slots s2) \<longrightarrow>
           (\<exists>s3. Neon_Scope_Escape s2 ?scope (Some i) = Inr (Some (escape_slot ?scope), s3) \<and>
              referent s3 (Some (escape_slot ?scope)) = referent s2 (Some i) \<and>
              escape_slot ?scope < prev_next ?scope \<and>
              (\<forall>rest. \<exists>s5. run_ops (Neon_Scope_Exit_Escapable s3 ?scope) rest = Inr s5 \<and>
                 valid s5 (Some (escape_slot ?scope)) \<and>
                 referent s5 (Some (escape_slot ?scope)) = referent s2 (Some i))))"
    by auto
  then have "\<exists>s2. run_ops ?s1 [Alloc (Smi 5), Nested [Alloc (Smi 6)]] = Inr s2 \<and>
        (\<forall>i. prev_next ?scope \<le> i \<and> i < length (slots s2) \<longrightarrow>
           (\<exists>s3. Neon_Scope_Escape s2 ?scope (Some i) = Inr (Some (escape_slot ?scope), s3) \<and>
              referent s3 (Some (escape_slot ?scope)) = referent s2 (Some i) \<and>
              escape_slot ?scope < prev_next ?scope \<and>
              (\<forall>rest. \<exists>s5. run_ops (Neon_Scope_Exit_Escapable s3 ?scope) rest = Inr s5 \<and>
                 valid s5 (Some (escape_slot ?scope)) \<and>
                 referent s5 (Some (escape_slot ?scope)) = referent s2 (Some i))))"
    by (rule allE)
  with h3 h4 obtain s3 where
    a: "Neon_Scope_Escape ?s2 ?scope (Some 5) = Inr (Some (escape_slot ?scope), s3)"
    and b: "referent s3 (Some (escape_slot ?scope)) = referent ?s2 (Some 5)"
    and c: "\<And>rest. \<exists>s5. run_ops (Neon_Scope_Exit_Escapable s3 ?scope) rest = Inr s5 \<and>
              valid s5 (Some (escape_slot ?scope)) \<and>
              referent s5 (Some (escape_slot ?scope)) = referent ?s2 (Some 5)"
    by auto
  from a have a': "Neon_Scope_Escape ?s2 ?scope (Some 5) = Inr (Some 4, s3)"
    by simp
  from b r have b': "referent s3 (Some 4) = Some (Smi 5)"
    by simp
  from c[of "[Nested [Alloc Undefined], Alloc (Smi 7)]"] r obtain s5 where
    c': "run_ops (Neon_Scope_Exit_Escapable s3 ?scope) [Nested [Alloc Undefined], Alloc (Smi 7)]
           = Inr s5"
    "valid s5 (Some 4)" "referent s5 (Some 4) = Some (Smi 5)"
    by auto
  from h1 h2 h3 h4 r a' b' c' show ?thesis
    by blast
qed

subsection \<open>Boolean results\<close>

lemma Neon_String_New_result:
  assumes "persistent_ok s out" "0 \<le> sint len" "nat (sint len) \<le> length data"
  shows "\<exists>s'. Neon_String_New s out data len = Inr (sint len \<le> kMaxLength, s')"
  using assms
  by (auto simp: Neon_String_New_def HandleScope_ctor_def HandleScope_dtor_def
      String_NewFromUtf8_def allocate_def CreateHandle_def Persistent_Reset_to_def
      Persistent_Reset_def DisposeGlobal_def deref_def persistent_ok_def kMaxLength_def
      split: option.splits)

lemma Neon_Class_SetName_result:
  assumes "0 < level s" "registered_class s m f" "0 \<le> sint len" "nat (sint len) \<le> length name"
  shows "\<exists>s'. Neon_Class_SetName s m name len = Inr (sint len \<le> kMaxLength, s')"
proof -
  from registered_classD[OF assms(2)] obtain t where
    "m < length (classes s)" "md_template (classes s ! m) = Some (HeapObject f)"
    "object_at s (HeapObject f) = Some (FunctionTemplate t)"
    by blast
  with assms(1,3,4) show ?thesis
    by (auto simp: Neon_Class_SetName_def ClassMetadata_GetTemplate_def
        String_NewFromUtf8_def allocate_def CreateHandle_def FunctionTemplate_SetClassName_def
        function_template_at_def object_at_def deref_def ClassMetadata_SetName_def nth_append
        kMaxLength_def split: if_splits)
qed

lemma Neon_Object_GetOwnPropertyNames_never_true:
  "Neon_Object_GetOwnPropertyNames s out obj \<noteq> Inr (Some True, s')"
  by (auto simp: Neon_Object_GetOwnPropertyNames_def HandleScope_ctor_def and_then_def
      split: sum.splits prod.splits option.splits)

text \<open>
  C5. \<open>Neon_Object_GetOwnPropertyNames\<close> on an ordinary object with one property: the
  host builds the array of names and the output handle is reset to it, but control leaves
  the function without a return value, so the caller reads no specified boolean. On a
  proxy whose trap throws, the function returns false.
\<close>

theorem get_own_property_names_returns_nothing:
  "\<exists>s' s''.
     Neon_Object_GetOwnPropertyNames example_state 101 102 = Inr (None, s') \<and>
     object_at s' (HeapObject 12) = Some (JSArray [HeapObject 9]) \<and>
     pending_exception s' = None \<and>
     Neon_Mem_ReadPersistent s' 101 = Inr (Some 4, s'\<lparr>slots := slots s' @ [HeapObject 12]\<rparr>) \<and>
     Neon_Object_GetOwnPropertyNames example_state 101 103 = Inr (Some False, s'') \<and>
     pending_exception s'' = Some (Smi 13)"
  by (simp add: Neon_Object_GetOwnPropertyNames_def HandleScope_ctor_def HandleScope_dtor_def
      Nan_New_Persistent_def CreateHandle_def Nan_GetOwnPropertyNames_def deref_def object_at_def
      allocate_def Persistent_Reset_to_def Persistent_Reset_def example_state_def nth_append
      Neon_Mem_ReadPersistent_def)

subsection \<open>Methods\<close>





subsection \<open>Errors\<close>

lemma StringLength_unknown:
  "StringLength (''an unknown Neon error occurred'' @ [CHR 0x00]) = Some 30"
  by (simp add: StringLength_def)

lemma Nan_ThrowError_cstr_unknown:
  "Nan_ThrowError_cstr s ''an unknown Neon error occurred'' =
     Inr (s\<lparr>heap := heap s @ [JSString ''an unknown Neon error occurred'',
                               JSError (HeapObject (length (heap s)))],
            pending_exception := Some (HeapObject (Suc (length (heap s))))\<rparr>)"
  unfolding Nan_ThrowError_cstr_def String_NewFromUtf8_def StringLength_unknown
  by (simp add: HandleScope_ctor_def HandleScope_dtor_def kMaxLength_def allocate_def
      CreateHandle_def ToLocalChecked_def Exception_Error_def deref_def ThrowException_def
      nth_append)

text \<open>
  C10. While a scope is open, for every byte buffer and its length,
  \<open>Neon_Error_ThrowErrorFromUtf8\<close> returns with an exception pending on the isolate: a
  new error object whose message is the string of the buffer's bytes when the host can make
  that string (length at most \<open>kMaxLength\<close>), and the string
  "an unknown Neon error occurred" when it cannot.
\<close>

theorem throw_error_from_utf8_always_throws:
  assumes "0 < level s" "0 \<le> sint len" "nat (sint len) \<le> length data"
  shows "\<exists>s' e m. Neon_Error_ThrowErrorFromUtf8 s data len = Inr s' \<and>
           pending_exception s' = Some (HeapObject e) \<and>
           object_at s' (HeapObject e) = Some (JSError (HeapObject m)) \<and>
           object_at s' (HeapObject m) =
             Some (JSString (if sint len \<le> kMaxLength then take (nat (sint len)) data
                             else ''an unknown Neon error occurred''))"
proof (cases "kMaxLength < sint len")
  case True
  then show ?thesis
    by (simp add: Neon_Error_ThrowErrorFromUtf8_def String_NewFromUtf8_def
        Nan_ThrowError_cstr_unknown object_at_def nth_append kMaxLength_def)
next
  case False
  with assms show ?thesis
    by (auto simp: Neon_Error_ThrowErrorFromUtf8_def String_NewFromUtf8_def allocate_def
        CreateHandle_def Exception_Error_def deref_def Nan_ThrowError_def ThrowException_def
        object_at_def nth_append)
qed

theorem throw_error_from_utf8_always_throws_witness:
  "0 < level example_state \<and> 0 \<le> sint (268435457 :: 32 word) \<and>
   nat (sint (268435457 :: 32 word)) \<le> length (replicate 268435457 CHR ''a'') \<and>
   kMaxLength < sint (268435457 :: 32 word) \<and>
   (\<exists>s' e m. Neon_Error_ThrowErrorFromUtf8 example_state (replicate 268435457 CHR ''a'') 268435457
                = Inr s' \<and>
      pending_exception s' = Some (HeapObject e) \<and>
      object_at s' (HeapObject e) = Some (JSError (HeapObject m)) \<and>
      object_at s' (HeapObject m) = Some (JSString ''an unknown Neon error occurred'')) \<and>
   (\<exists>s' e m. Neon_Error_ThrowErrorFromUtf8 example_state ''boom'' 4 = Inr s' \<and>
      pending_exception s' = Some (HeapObject e) \<and>
      object_at s' (HeapObject e) = Some (JSError (HeapObject m)) \<and>
      object_at s' (HeapObject m) = Some (JSString ''boom''))"
proof -
  have h: "0 < level example_state" "0 \<le> sint (268435457 :: 32 word)"
    "nat (sint (268435457 :: 32 word)) \<le> length (replicate 268435457 CHR ''a'')"
    and k: "kMaxLength < sint (268435457 :: 32 word)"
    and h': "0 \<le> sint (4 :: 32 word)" "nat (sint (4 :: 32 word)) \<le> length ''boom''"
    and k': "sint (4 :: 32 word) \<le> kMaxLength" "take (nat (sint (4 :: 32 word))) ''boom'' = ''boom''"
    by (simp_all add: example_state_def kMaxLength_def)
  from throw_error_from_utf8_always_throws[OF h]
       throw_error_from_utf8_always_throws[OF h(1) h'] h k k'
  show ?thesis
    by simp
qed

subsection \<open>Thin calls\<close>

text \<open>
  C7. The thin call and construct variants are stubs: for every function, receiver and
  argument list they return false and leave the whole state as it was; in particular the
  output slot is not written and no call is recorded.
\<close>

theorem thin_call_variants_are_stubs:
  "Neon_Fun_CallThin s out fn self argc argv = (False, s) \<and>
   Neon_Fun_ConstructThin s out fn argc argv = (False, s) \<and>
   persistents (snd (Neon_Fun_CallThin s out fn self argc argv)) out = persistents s out \<and>
   persistents (snd (Neon_Fun_ConstructThin s out fn argc argv)) out = persistents s out \<and>
   trace (snd (Neon_Fun_CallThin s out fn self argc argv)) = trace s \<and>
   trace (snd (Neon_Fun_ConstructThin s out fn argc argv)) = trace s"
  by (simp add: Neon_Fun_CallThin_def Neon_Fun_ConstructThin_def)

end
